theory Spec2Isabelle
  imports Main "HOL-Library.Sublist"
begin

section \<open>Python values, exceptions and outcomes\<close>

text \<open>
  The values that travel through \<^verbatim>\<open>transcription_server.py\<close>: what \<^verbatim>\<open>json.loads\<close>
  can produce, what is handed to \<^verbatim>\<open>model.generate\<close>, and the dicts that
  \<^verbatim>\<open>send_json_response\<close> serialises. A dict is kept as its list of items, in insertion
  order. A float is carried by its literal; no operation of the program looks at its value.
  A \<^verbatim>\<open>bytes\<close> object is a list of 8-bit characters.
\<close>

type_synonym bytes = "char list"

datatype pyval =
    PNone
  | PBool bool
  | PInt int
  | PFloat string
  | PStr string
  | PList "pyval list"
  | PDict "(string \<times> pyval) list"

text \<open>
  An exception object: its class and \<^verbatim>\<open>str(e)\<close>. The classes that derive from
  \<^verbatim>\<open>Exception\<close> are the ones a clause \<^verbatim>\<open>except Exception\<close> catches; \<^verbatim>\<open>KeyboardInterrupt\<close>,
  \<^verbatim>\<open>SystemExit\<close> and \<^verbatim>\<open>GeneratorExit\<close> derive from \<^verbatim>\<open>BaseException\<close> only.
\<close>

datatype exc_class =
    TypeError
  | ValueError
  | KeyError
  | OSError
  | FileExistsError
  | FileNotFoundError
  | Exception_subclass string
  | KeyboardInterrupt
  | SystemExit
  | GeneratorExit
  | BaseException_subclass string

datatype exc = Exc (cls: exc_class) (str_of: string)

fun derives_from_Exception :: "exc_class \<Rightarrow> bool" where
  "derives_from_Exception KeyboardInterrupt = False"
| "derives_from_Exception SystemExit = False"
| "derives_from_Exception GeneratorExit = False"
| "derives_from_Exception (BaseException_subclass _) = False"
| "derives_from_Exception _ = True"

definition isinstance_Exception :: "exc \<Rightarrow> bool" where
  "isinstance_Exception e = derives_from_Exception (cls e)"

text \<open>
  How a call ends: it returns a value, it raises, or it never returns (it waits for a
  lock that is held, for bytes that do not arrive, or for an inference that hangs).
\<close>

datatype 'a outcome = Return 'a | Raise exc | Block

section \<open>The process state\<close>

text \<open>
  The temporary directory is a map from paths to contents. The model object is opaque:
  \<^verbatim>\<open>model.generate(audio_path)\<close> is taken as a function of its argument and of the files
  it can read, which ends as any call does and may leave the files changed. A returned
  value stands for \<^verbatim>\<open>result.text\<close>.
\<close>

type_synonym files = "string \<rightharpoonup> bytes"

type_synonym asr_model = "pyval \<Rightarrow> files \<Rightarrow> string outcome \<times> files"

record response =
  status :: nat
  hdrs :: "(string \<times> string) list"
  body :: "pyval option"

text \<open>
  The effects of the program, in the order they happen: the lock taken and given back,
  \<^verbatim>\<open>model.generate\<close> called, a temporary file created, \<^verbatim>\<open>os.unlink\<close> called, a response
  written by the handler, and the error page of \<^verbatim>\<open>BaseHTTPRequestHandler.send_error\<close>.
\<close>

datatype event =
    Acquire
  | Release
  | Generate pyval
  | CreateTemp string
  | Unlink string
  | Respond response
  | Send_error nat

text \<open>
  The module globals \<^verbatim>\<open>model\<close>, \<^verbatim>\<open>model_lock\<close> (True when held) and \<^verbatim>\<open>model_loaded\<close>,
  the files, and the effects so far.
\<close>

record world =
  model :: "asr_model option"
  model_lock :: bool
  model_loaded :: bool
  fs :: files
  trace :: "event list"

definition initial_world :: "files \<Rightarrow> world" where
  "initial_world fls =
     \<lparr>model = None, model_lock = False, model_loaded = False, fs = fls, trace = []\<rparr>"

definition emit :: "event \<Rightarrow> world \<Rightarrow> world" where
  "emit ev w = w\<lparr>trace := trace w @ [ev]\<rparr>"

section \<open>The Model Manager\<close>

text \<open>
  What the program does not contain and calls: \<^verbatim>\<open>load_model\<close> of mlx_audio (with the
  import that precedes it), \<^verbatim>\<open>urlparse(...).path\<close>, \<^verbatim>\<open>int\<close> on a header value,
  \<^verbatim>\<open>json.loads\<close> after \<^verbatim>\<open>decode('utf-8')\<close>, the names \<^verbatim>\<open>tempfile\<close> draws (directory,
  prefix and random part, without the suffix), the environment variable
  \<^verbatim>\<open>VOICESCRIBE_PORT\<close>, and the binding of the listening socket. \<open>Inl\<close> is the exception
  raised. The operating system and the interpreter may refuse what the program asks of
  them: the error, if any, with which a read of so many bytes fails at once
  (OverflowError, MemoryError), with which the temporary file of that path cannot be
  created, with which the write into it or its close fails, and with which
  \<^verbatim>\<open>os.unlink\<close> fails on a file that exists (PermissionError and the like).
\<close>

record env =
  load_model :: "string \<Rightarrow> exc + asr_model"
  urlparse_path :: "string \<Rightarrow> exc + string"
  py_int :: "string \<Rightarrow> exc + int"
  json_loads :: "bytes \<Rightarrow> exc + pyval"
  tmp_names :: "string list"
  VOICESCRIBE_PORT :: "string option"
  bind_socket :: "int \<Rightarrow> exc option"
  read_error :: "int \<Rightarrow> exc option"
  create_error :: "string \<Rightarrow> exc option"
  write_error :: "string \<Rightarrow> exc option"
  unlink_error :: "string \<Rightarrow> exc option"

definition load_parakeet_model :: "env \<Rightarrow> world \<Rightarrow> bool outcome \<times> world" where
  "load_parakeet_model en w =
     (case load_model en ''mlx-community/parakeet-tdt-0.6b-v2'' of
        Inr m \<Rightarrow> (Return True, w\<lparr>model := Some m, model_loaded := True\<rparr>)
      | Inl e \<Rightarrow> if isinstance_Exception e then (Return False, w) else (Raise e, w))"

definition not_loaded_result :: pyval where
  "not_loaded_result = PDict [(''error'', PStr ''Model not loaded''), (''text'', PStr '''')]"

definition text_result :: "string \<Rightarrow> pyval" where
  "text_result t = PDict [(''text'', PStr t), (''error'', PNone)]"

definition error_result :: "exc \<Rightarrow> pyval" where
  "error_result e = PDict [(''error'', PStr (str_of e)), (''text'', PStr '''')]"

text \<open>
  \<^verbatim>\<open>with model_lock:\<close> enters by a blocking \<^verbatim>\<open>acquire\<close> and leaves, however the block
  ends, by \<^verbatim>\<open>release\<close>.
\<close>

definition acquire :: "world \<Rightarrow> world" where
  "acquire w = emit Acquire (w\<lparr>model_lock := True\<rparr>)"

definition release :: "world \<Rightarrow> world" where
  "release w = emit Release (w\<lparr>model_lock := False\<rparr>)"

definition transcribe_audio :: "pyval \<Rightarrow> world \<Rightarrow> pyval outcome \<times> world" where
  "transcribe_audio audio_path w =
     (case model w of
        None \<Rightarrow> (Return not_loaded_result, w)
      | Some m \<Rightarrow>
          if model_lock w then (Block, w)
          else
            (case m audio_path (fs w) of (r, fs') \<Rightarrow>
               let w' = (emit (Generate audio_path) (acquire w))\<lparr>fs := fs'\<rparr> in
               (case r of
                  Block \<Rightarrow> (Block, w')
                | Return t \<Rightarrow> (Return (text_result t), release w')
                | Raise e \<Rightarrow>
                    (if isinstance_Exception e then Return (error_result e) else Raise e,
                     release w'))))"

text \<open>
  Whether the call \<^verbatim>\<open>transcribe_audio(p)\<close> comes back with a result dict: the model is
  missing, or the lock is free and the inference returns or raises an exception that
  \<^verbatim>\<open>except Exception\<close> catches.
\<close>

definition answers :: "pyval \<Rightarrow> world \<Rightarrow> bool" where
  "answers p w =
     (case model w of
        None \<Rightarrow> True
      | Some m \<Rightarrow>
          \<not> model_lock w \<and>
          (case fst (m p (fs w)) of
             Return t \<Rightarrow> True
           | Raise e \<Rightarrow> isinstance_Exception e
           | Block \<Rightarrow> False))"

section \<open>The Request Server\<close>

text \<open>
  A request as \<^verbatim>\<open>BaseHTTPRequestHandler\<close> hands it to a \<^verbatim>\<open>do_*\<close> method: the method
  \<^verbatim>\<open>self.command\<close>, the request target \<^verbatim>\<open>self.path\<close>, the headers (looked up by name),
  and \<^verbatim>\<open>self.rfile\<close>: the bytes the client has sent after the headers, and whether it
  has closed its side of the connection.
\<close>

record request =
  command :: string
  path :: string
  headers :: "string \<rightharpoonup> string"
  rfile :: bytes
  rfile_eof :: bool

definition json_response :: "pyval \<Rightarrow> nat \<Rightarrow> response" where
  "json_response data st =
     \<lparr>status = st,
      hdrs = [(''Content-Type'', ''application/json''), (''Access-Control-Allow-Origin'', ''*'')],
      body = Some data\<rparr>"

text \<open>
  \<^verbatim>\<open>send_json_response\<close> writes the status line, the two headers and
  \<^verbatim>\<open>json.dumps(data)\<close>; the response is kept with the dict itself as its body. Every
  value of \<open>pyval\<close> can be serialised, and the write to the client is taken to succeed.
\<close>

definition send_json_response :: "pyval \<Rightarrow> nat \<Rightarrow> world \<Rightarrow> world" where
  "send_json_response data st w = emit (Respond (json_response data st)) w"

text \<open>The responses written so far, oldest first.\<close>

fun response_of :: "event \<Rightarrow> response option" where
  "response_of (Respond rsp) = Some rsp"
| "response_of _ = None"

definition responses :: "world \<Rightarrow> response list" where
  "responses w = List.map_filter response_of (trace w)"

definition not_found :: pyval where
  "not_found = PDict [(''error'', PStr ''Not found'')]"

definition do_GET :: "env \<Rightarrow> request \<Rightarrow> world \<Rightarrow> unit outcome \<times> world" where
  "do_GET en r w =
     (case urlparse_path en (path r) of
        Inl e \<Rightarrow> (Raise e, w)
      | Inr p \<Rightarrow>
          if p = ''/health'' then
            (Return (),
             send_json_response
               (PDict [(''status'', PStr ''ok''), (''model_loaded'', PBool (model_loaded w))])
               200 w)
          else if p = ''/status'' then
            (Return (),
             send_json_response
               (PDict [(''model_loaded'', PBool (model_loaded w)),
                       (''model_name'', PStr ''parakeet-tdt-0.6b-v2'')])
               200 w)
          else (Return (), send_json_response not_found 404 w))"

text \<open>
  \<^verbatim>\<open>int(self.headers['Content-Length'])\<close>: a missing header is looked up as \<^verbatim>\<open>None\<close>,
  on which \<^verbatim>\<open>int\<close> raises TypeError.
\<close>

definition content_length :: "env \<Rightarrow> request \<Rightarrow> exc + int" where
  "content_length en r =
     (case headers r ''Content-Length'' of
        None \<Rightarrow> Inl (Exc TypeError ''int() argument must be a string or a number, not NoneType'')
      | Some s \<Rightarrow> py_int en s)"

text \<open>
  \<^verbatim>\<open>self.rfile.read(n)\<close> on the buffered reader of the connection: a length below -1 is
  a ValueError; -1 reads to the end of the stream; otherwise the call returns once \<open>n\<close>
  bytes have come or the client has closed its side, unless the interpreter cannot
  take a read of that length at all.
\<close>

definition rfile_read :: "env \<Rightarrow> request \<Rightarrow> int \<Rightarrow> bytes outcome" where
  "rfile_read en r n =
     (if n < - 1 then Raise (Exc ValueError ''read length must be non-negative or -1'')
      else if n = - 1 then (if rfile_eof r then Return (rfile r) else Block)
      else
        (case read_error en n of
           Some e \<Rightarrow> Raise e
         | None \<Rightarrow>
             if nat n \<le> length (rfile r) then Return (take (nat n) (rfile r))
             else if rfile_eof r then Return (rfile r)
             else Block))"

definition read_body :: "env \<Rightarrow> request \<Rightarrow> bytes outcome" where
  "read_body en r =
     (case content_length en r of Inl e \<Rightarrow> Raise e | Inr n \<Rightarrow> rfile_read en r n)"

text \<open>
  Lines 91 to 93, the \<^verbatim>\<open>with\<close> statement on
  \<^verbatim>\<open>tempfile.NamedTemporaryFile(suffix=..., delete=False)\<close>: \<^verbatim>\<open>tempfile\<close> takes the first
  name it draws that no file has yet (FileExistsError when none is left) and creates
  the file; the body is written and the file closed. The result is \<open>Inr\<close> of
  \<^verbatim>\<open>temp_path\<close> when all of this has succeeded. When the creation fails there is no
  file. When the write or the close fails the file stays, since \<^verbatim>\<open>delete\<close> is False and
  the \<^verbatim>\<open>try\<close> statement with its \<^verbatim>\<open>finally\<close> block has not been entered: \<open>Inl\<close> carries
  the exception and the path of the file left behind, if there is one.
\<close>

definition NamedTemporaryFile ::
  "env \<Rightarrow> string \<Rightarrow> files \<Rightarrow> exc \<times> string option + string" where
  "NamedTemporaryFile en sfx fls =
     (case List.find (\<lambda>p. fls p = None) (map (\<lambda>n. n @ sfx) (tmp_names en)) of
        None \<Rightarrow> Inl (Exc FileExistsError ''No usable temporary file name found'', None)
      | Some p \<Rightarrow>
          (case create_error en p of
             Some e \<Rightarrow> Inl (e, None)
           | None \<Rightarrow>
               (case write_error en p of
                  Some e \<Rightarrow> Inl (e, Some p)
                | None \<Rightarrow> Inr p)))"

text \<open>
  \<^verbatim>\<open>os.unlink\<close> removes the file. It raises when there is none, and when the operating
  system refuses; the file then stays.
\<close>

definition os_unlink :: "env \<Rightarrow> string \<Rightarrow> world \<Rightarrow> unit outcome \<times> world" where
  "os_unlink en p w =
     (case fs w p of
        None \<Rightarrow> (Raise (Exc FileNotFoundError ''No such file or directory''), emit (Unlink p) w)
      | Some _ \<Rightarrow>
          (case unlink_error en p of
             Some e \<Rightarrow> (Raise e, emit (Unlink p) w)
           | None \<Rightarrow> (Return (), emit (Unlink p) (w\<lparr>fs := (fs w)(p := None)\<rparr>))))"

text \<open>
  The clean-up of the \<^verbatim>\<open>finally\<close> block: \<^verbatim>\<open>try: os.unlink(temp_path)\<close>, \<^verbatim>\<open>except: pass\<close>.
  Whatever \<^verbatim>\<open>os.unlink\<close> raises is dropped.
\<close>

definition cleanup :: "env \<Rightarrow> string \<Rightarrow> world \<Rightarrow> world" where
  "cleanup en p w = snd (os_unlink en p w)"

text \<open>
  \<^verbatim>\<open>'path' in data\<close> is key membership on a dict, element membership on a list, the
  substring test on a str, and TypeError on a value that is not a container.
\<close>

fun py_in :: "string \<Rightarrow> pyval \<Rightarrow> exc + bool" where
  "py_in k (PDict kvs) = Inr (k \<in> set (map fst kvs))"
| "py_in k (PList xs) = Inr (PStr k \<in> set xs)"
| "py_in k (PStr s) = Inr (sublist k s)"
| "py_in k _ = Inl (Exc TypeError ''argument is not iterable'')"

text \<open>\<^verbatim>\<open>data['path']\<close>: the value under the key on a dict; a list or a str takes no str index.\<close>

fun py_getitem :: "pyval \<Rightarrow> string \<Rightarrow> exc + pyval" where
  "py_getitem (PDict kvs) k =
     (case map_of kvs k of None \<Rightarrow> Inl (Exc KeyError k) | Some v \<Rightarrow> Inr v)"
| "py_getitem (PList xs) k = Inl (Exc TypeError ''list indices must be integers or slices, not str'')"
| "py_getitem (PStr s) k = Inl (Exc TypeError ''string indices must be integers'')"
| "py_getitem _ k = Inl (Exc TypeError ''object is not subscriptable'')"

definition no_path :: pyval where
  "no_path = PDict [(''error'', PStr ''No path provided'')]"

text \<open>
  The \<^verbatim>\<open>/transcribe\<close> branch after the body is read. The \<^verbatim>\<open>finally\<close> block runs
  whenever the \<^verbatim>\<open>try\<close> block is left, by return or by exception; it is not reached when
  the call inside never returns, nor when the \<^verbatim>\<open>with\<close> statement before the \<^verbatim>\<open>try\<close> has
  raised. A file left behind by a failed write holds what had been written, taken as
  nothing.
\<close>

definition transcribe_route :: "env \<Rightarrow> bytes \<Rightarrow> world \<Rightarrow> unit outcome \<times> world" where
  "transcribe_route en post_data w =
     (case NamedTemporaryFile en ''.wav'' (fs w) of
        Inl (e, None) \<Rightarrow> (Raise e, w)
      | Inl (e, Some left) \<Rightarrow> (Raise e, emit (CreateTemp left) (w\<lparr>fs := (fs w)(left \<mapsto> [])\<rparr>))
      | Inr temp_path \<Rightarrow>
          (case transcribe_audio (PStr temp_path)
                  (emit (CreateTemp temp_path) (w\<lparr>fs := (fs w)(temp_path \<mapsto> post_data)\<rparr>)) of
             (Return result, w') \<Rightarrow>
               (Return (), cleanup en temp_path (send_json_response result 200 w'))
           | (Raise e, w') \<Rightarrow> (Raise e, cleanup en temp_path w')
           | (Block, w') \<Rightarrow> (Block, w')))"

definition transcribe_file_route :: "env \<Rightarrow> bytes \<Rightarrow> world \<Rightarrow> unit outcome \<times> world" where
  "transcribe_file_route en post_data w =
     (case json_loads en post_data of
        Inl e \<Rightarrow> (Raise e, w)
      | Inr data \<Rightarrow>
          (case py_in ''path'' data of
             Inl e \<Rightarrow> (Raise e, w)
           | Inr False \<Rightarrow> (Return (), send_json_response no_path 400 w)
           | Inr True \<Rightarrow>
               (case py_getitem data ''path'' of
                  Inl e \<Rightarrow> (Raise e, w)
                | Inr v \<Rightarrow>
                    (case transcribe_audio v w of
                       (Return result, w') \<Rightarrow> (Return (), send_json_response result 200 w')
                     | (Raise e, w') \<Rightarrow> (Raise e, w')
                     | (Block, w') \<Rightarrow> (Block, w')))))"

definition do_POST :: "env \<Rightarrow> request \<Rightarrow> world \<Rightarrow> unit outcome \<times> world" where
  "do_POST en r w =
     (case urlparse_path en (path r) of
        Inl e \<Rightarrow> (Raise e, w)
      | Inr p \<Rightarrow>
          if p = ''/transcribe'' then
            (case read_body en r of
               Raise e \<Rightarrow> (Raise e, w)
             | Block \<Rightarrow> (Block, w)
             | Return post_data \<Rightarrow> transcribe_route en post_data w)
          else if p = ''/transcribe-file'' then
            (case read_body en r of
               Raise e \<Rightarrow> (Raise e, w)
             | Block \<Rightarrow> (Block, w)
             | Return post_data \<Rightarrow> transcribe_file_route en post_data w)
          else (Return (), send_json_response not_found 404 w))"

definition do_OPTIONS :: "request \<Rightarrow> world \<Rightarrow> unit outcome \<times> world" where
  "do_OPTIONS r w =
     (Return (),
      emit (Respond \<lparr>status = 200,
                     hdrs = [(''Access-Control-Allow-Origin'', ''*''),
                             (''Access-Control-Allow-Methods'', ''GET, POST, OPTIONS''),
                             (''Access-Control-Allow-Headers'', ''Content-Type'')],
                     body = None\<rparr>) w)"

text \<open>
  \<^verbatim>\<open>TranscriptionHandler\<close> defines \<^verbatim>\<open>do_GET\<close>, \<^verbatim>\<open>do_POST\<close> and \<^verbatim>\<open>do_OPTIONS\<close> and no other
  \<^verbatim>\<open>do_*\<close> method. Its base class calls the method named after \<^verbatim>\<open>self.command\<close>, and
  answers a command that has none with \<^verbatim>\<open>send_error(501)\<close>.
\<close>

definition handle_one_request :: "env \<Rightarrow> request \<Rightarrow> world \<Rightarrow> unit outcome \<times> world" where
  "handle_one_request en r w =
     (if command r = ''GET'' then do_GET en r w
      else if command r = ''POST'' then do_POST en r w
      else if command r = ''OPTIONS'' then do_OPTIONS r w
      else (Return (), emit (Send_error 501) w))"

text \<open>
  \<^verbatim>\<open>run_server\<close> builds an \<^verbatim>\<open>HTTPServer\<close>, the plain \<^verbatim>\<open>socketserver.TCPServer\<close> with no
  threading or forking mix-in, and calls \<^verbatim>\<open>serve_forever\<close>: the loop takes the next
  connection and runs the handler on it in the calling thread, to its end, before it
  takes another. An exception deriving from \<^verbatim>\<open>Exception\<close> that escapes the handler is
  reported and the connection closed; any other ends the loop. The list is the
  connections in their order of arrival; \<open>Return\<close> says that all of them have been
  handled. The signal handlers are not part of the model.
\<close>

fun serve_forever :: "env \<Rightarrow> request list \<Rightarrow> world \<Rightarrow> unit outcome \<times> world" where
  "serve_forever en [] w = (Return (), w)"
| "serve_forever en (r # rs) w =
     (case handle_one_request en r w of
        (Return _, w') \<Rightarrow> serve_forever en rs w'
      | (Raise e, w') \<Rightarrow>
          if isinstance_Exception e then serve_forever en rs w' else (Raise e, w')
      | (Block, w') \<Rightarrow> (Block, w'))"

definition run_server :: "env \<Rightarrow> int \<Rightarrow> request list \<Rightarrow> world \<Rightarrow> unit outcome \<times> world" where
  "run_server en port rs w =
     (case bind_socket en port of
        Some e \<Rightarrow> (Raise e, w)
      | None \<Rightarrow> serve_forever en rs w)"

text \<open>
  The script body: load the model, then read the port and serve, or
  \<^verbatim>\<open>sys.exit(1)\<close> when the load has failed.
\<close>

definition main :: "env \<Rightarrow> request list \<Rightarrow> world \<Rightarrow> unit outcome \<times> world" where
  "main en rs w =
     (case load_parakeet_model en w of
        (Return True, w') \<Rightarrow>
          (case (case VOICESCRIBE_PORT en of None \<Rightarrow> Inr 8765 | Some s \<Rightarrow> py_int en s) of
             Inl e \<Rightarrow> (Raise e, w')
           | Inr port \<Rightarrow> run_server en port rs w')
      | (Return False, w') \<Rightarrow> (Raise (Exc SystemExit ''1''), w')
      | (Raise e, w') \<Rightarrow> (Raise e, w')
      | (Block, w') \<Rightarrow> (Block, w'))"

section \<open>Concurrent callers of the Model Manager\<close>

text \<open>
  \<^verbatim>\<open>transcribe_audio\<close> as several threads may run it at once, one step of one thread at a
  time. A thread is before the call, inside the \<^verbatim>\<open>with\<close> block before line 45, inside
  \<^verbatim>\<open>model.generate\<close> (or inside it for ever), past it with its outcome and the lock
  still held, or done.
\<close>

datatype thread =
    Calling pyval
  | Holding pyval
  | In_generate pyval asr_model
  | Hung
  | Leaving "string outcome"
  | Finished "pyval outcome"

fun thread_step :: "thread \<Rightarrow> world \<Rightarrow> thread \<times> world" where
  "thread_step (Calling p) w =
     (case model w of
        None \<Rightarrow> (Finished (Return not_loaded_result), w)
      | Some m \<Rightarrow> if model_lock w then (Calling p, w) else (Holding p, acquire w))"
| "thread_step (Holding p) w =
     (case model w of
        None \<Rightarrow>
          (Leaving (Raise (Exc (Exception_subclass ''AttributeError'')
                             ''NoneType object has no attribute generate'')), w)
      | Some m \<Rightarrow> (In_generate p m, emit (Generate p) w))"
| "thread_step (In_generate p m) w =
     (case m p (fs w) of
        (Block, fs') \<Rightarrow> (Hung, w\<lparr>fs := fs'\<rparr>)
      | (r, fs') \<Rightarrow> (Leaving r, w\<lparr>fs := fs'\<rparr>))"
| "thread_step Hung w = (Hung, w)"
| "thread_step (Leaving r) w =
     (Finished (case r of
                  Return t \<Rightarrow> Return (text_result t)
                | Raise e \<Rightarrow> if isinstance_Exception e then Return (error_result e) else Raise e
                | Block \<Rightarrow> Block),
      release w)"
| "thread_step (Finished out) w = (Finished out, w)"

record system =
  shared :: world
  threads :: "thread list"

definition step :: "nat \<Rightarrow> system \<Rightarrow> system" where
  "step i s =
     (if i < length (threads s) then
        (case thread_step (threads s ! i) (shared s) of
           (t', w') \<Rightarrow> \<lparr>shared = w', threads = (threads s)[i := t']\<rparr>)
      else s)"

text \<open>A schedule names the thread that moves next.\<close>

fun run :: "nat list \<Rightarrow> system \<Rightarrow> system" where
  "run [] s = s"
| "run (i # sched) s = run sched (step i s)"

definition callers :: "world \<Rightarrow> pyval list \<Rightarrow> system" where
  "callers w ps = \<lparr>shared = w, threads = map Calling ps\<rparr>"

fun in_with :: "thread \<Rightarrow> bool" where
  "in_with (Holding _) = True"
| "in_with (In_generate _ _) = True"
| "in_with Hung = True"
| "in_with (Leaving _) = True"
| "in_with _ = False"

fun in_inference :: "thread \<Rightarrow> bool" where
  "in_inference (In_generate _ _) = True"
| "in_inference Hung = True"
| "in_inference _ = False"

fun outcome_of :: "thread \<Rightarrow> pyval outcome" where
  "outcome_of (Finished out) = out"
| "outcome_of _ = Block"

definition lock_invariant :: "system \<Rightarrow> bool" where
  "lock_invariant s \<longleftrightarrow>
     length (filter in_with (threads s)) = (if model_lock (shared s) then 1 else 0)"

section \<open>The operations of the program\<close>

text \<open>Every way the program has to change its state, for the claims about all of them.\<close>

datatype operation =
    Load
  | Transcribe pyval
  | Handle request
  | Serve "request list"
  | Main "request list"
  | Thread_step thread

fun perform :: "env \<Rightarrow> operation \<Rightarrow> world \<Rightarrow> world" where
  "perform en Load w = snd (load_parakeet_model en w)"
| "perform en (Transcribe p) w = snd (transcribe_audio p w)"
| "perform en (Handle r) w = snd (handle_one_request en r w)"
| "perform en (Serve rs) w = snd (serve_forever en rs w)"
| "perform en (Main rs) w = snd (main en rs w)"
| "perform en (Thread_step t) w = snd (thread_step t w)"

section \<open>Concrete inputs\<close>

text \<open>
  A model that transcribes every file that exists, one that is interrupted, one that
  removes the file it was given, and one that never returns.
\<close>

definition stub_model :: asr_model where
  "stub_model p fls =
     (case p of
        PStr s \<Rightarrow>
          (case fls s of
             Some b \<Rightarrow> (Return ''hello world'', fls)
           | None \<Rightarrow> (Raise (Exc FileNotFoundError ''No such file''), fls))
      | _ \<Rightarrow> (Raise (Exc TypeError ''expected a path''), fls))"

definition interrupted_model :: asr_model where
  "interrupted_model p fls = (Raise (Exc KeyboardInterrupt ''''), fls)"


definition stub_env :: env where
  \<open>stub_env =
     \<lparr>load_model = (\<lambda>name. Inr stub_model),
      urlparse_path = (\<lambda>s. Inr (takeWhile (\<lambda>c. c \<noteq> CHR ''?'') s)),
      py_int =
        (\<lambda>s. case map_of [(''2'', 2), (''3'', 3), (''4'', 4), (''10'', 10), (''33'', 33)] s of
               Some n \<Rightarrow> Inr n
             | None \<Rightarrow> Inl (Exc ValueError ''invalid literal for int()'')),
      json_loads =
        (\<lambda>b. case map_of
                  [(''{}'', PDict []),
                   (''{"path": "/nonexistent/file.wav"}'',
                    PDict [(''path'', PStr ''/nonexistent/file.wav'')]),
                   (''123'', PInt 123)] b of
               Some v \<Rightarrow> Inr v
             | None \<Rightarrow> Inl (Exc ValueError ''Expecting value'')),
      tmp_names = [''/tmp/tmpa1b2c3d4'', ''/tmp/tmpe5f6g7h8''],
      VOICESCRIBE_PORT = None,
      bind_socket = (\<lambda>port. None),
      read_error = (\<lambda>n. None),
      create_error = (\<lambda>p. None),
      write_error = (\<lambda>p. None),
      unlink_error = (\<lambda>p. None)\<rparr>\<close>


text \<open>The same surroundings, with a disk that takes no write.\<close>

definition full_disk_env :: env where
  "full_disk_env =
     stub_env\<lparr>write_error := (\<lambda>p. Some (Exc OSError ''No space left on device''))\<rparr>"

definition ready_world :: world where
  "ready_world = snd (load_parakeet_model stub_env (initial_world Map.empty))"

definition world_with :: "asr_model \<Rightarrow> world" where
  "world_with m = (initial_world Map.empty)\<lparr>model := Some m, model_loaded := True\<rparr>"

definition get :: "string \<Rightarrow> request" where
  "get p =
     \<lparr>command = ''GET'', path = p, headers = Map.empty, rfile = [], rfile_eof = False\<rparr>"

text \<open>A POST with a Content-Length header and the bytes sent so far, the connection open.\<close>

definition post :: "string \<Rightarrow> string \<Rightarrow> bytes \<Rightarrow> request" where
  "post p n b =
     \<lparr>command = ''POST'', path = p, headers = [''Content-Length'' \<mapsto> n], rfile = b,
      rfile_eof = False\<rparr>"

definition put :: "string \<Rightarrow> request" where
  "put p =
     \<lparr>command = ''PUT'', path = p, headers = Map.empty, rfile = [], rfile_eof = False\<rparr>"

definition failing_model :: asr_model where
  "failing_model p fls = (Raise (Exc (Exception_subclass ''RuntimeError'') ''decode failed''), fls)"

section \<open>Observations on the effects\<close>

text \<open>The events that create or remove a temporary file.\<close>

fun is_temp_event :: "event \<Rightarrow> bool" where
  "is_temp_event (CreateTemp _) = True"
| "is_temp_event (Unlink _) = True"
| "is_temp_event _ = False"

definition temp_events :: "world \<Rightarrow> event list" where
  "temp_events w = filter is_temp_event (trace w)"


section \<open>Field lemmas\<close>

lemma emit_fields [simp]:
  "trace (emit ev w) = trace w @ [ev]"
  "fs (emit ev w) = fs w"
  "model (emit ev w) = model w"
  "model_lock (emit ev w) = model_lock w"
  "model_loaded (emit ev w) = model_loaded w"
  by (simp_all add: emit_def)

lemma acquire_fields [simp]:
  "trace (acquire w) = trace w @ [Acquire]"
  "fs (acquire w) = fs w"
  "model (acquire w) = model w"
  "model_lock (acquire w)"
  "model_loaded (acquire w) = model_loaded w"
  by (simp_all add: acquire_def)

lemma release_fields [simp]:
  "trace (release w) = trace w @ [Release]"
  "fs (release w) = fs w"
  "model (release w) = model w"
  "\<not> model_lock (release w)"
  "model_loaded (release w) = model_loaded w"
  by (simp_all add: release_def)

section \<open>The Model Manager: lock discipline\<close>

lemma transcribe_audio_trace:
  assumes "model w = Some m" and "\<not> model_lock w" and "fst (m p (fs w)) \<noteq> Block"
  shows "trace (snd (transcribe_audio p w)) = trace w @ [Acquire, Generate p, Release]"
    and "\<not> model_lock (snd (transcribe_audio p w))"
  using assms
  by (auto simp: transcribe_audio_def Let_def split: prod.splits outcome.splits)

lemma transcribe_audio_hang:
  assumes "model w = Some m" and "\<not> model_lock w" and "fst (m p (fs w)) = Block"
  shows "fst (transcribe_audio p w) = Block"
    and "trace (snd (transcribe_audio p w)) = trace w @ [Acquire, Generate p]"
    and "model_lock (snd (transcribe_audio p w))"
  using assms
  by (auto simp: transcribe_audio_def Let_def split: prod.splits outcome.splits)

lemma transcribe_audio_blocked:
  "model w = Some m \<Longrightarrow> model_lock w \<Longrightarrow> transcribe_audio p w = (Block, w)"
  by (simp add: transcribe_audio_def)

lemma filter_update_count:
  "i < length xs \<Longrightarrow>
   length (filter P (xs[i := y])) + (if P (xs ! i) then 1 else 0) =
   length (filter P xs) + (if P y then 1 else 0)"
proof (induction xs arbitrary: i)
  case Nil
  then show ?case by simp
next
  case (Cons x xs)
  show ?case
  proof (cases i)
    case 0
    then show ?thesis by simp
  next
    case (Suc j)
    with Cons.prems have "j < length xs" by simp
    from Cons.IH [OF this] Suc show ?thesis by simp
  qed
qed

lemma thread_step_lock:
  assumes "thread_step t w = (t', w')"
  shows "(in_with t' = in_with t \<and> model_lock w' = model_lock w) \<or>
         (\<not> in_with t \<and> in_with t' \<and> \<not> model_lock w \<and> model_lock w') \<or>
         (in_with t \<and> \<not> in_with t' \<and> \<not> model_lock w')"
  using assms
  by (cases t) (auto split: option.splits if_splits prod.splits outcome.splits)

lemma step_lock_invariant:
  assumes "lock_invariant s"
  shows "lock_invariant (step i s)"
proof (cases "i < length (threads s)")
  case False
  with assms show ?thesis by (simp add: step_def)
next
  case True
  obtain t' w' where st: "thread_step (threads s ! i) (shared s) = (t', w')"
    by (cases "thread_step (threads s ! i) (shared s)")
  have after: "step i s = \<lparr>shared = w', threads = (threads s)[i := t']\<rparr>"
    using True st by (simp add: step_def)
  have count: "length (filter in_with ((threads s)[i := t'])) +
        (if in_with (threads s ! i) then 1 else 0) =
        length (filter in_with (threads s)) + (if in_with t' then 1 else 0)"
    using True by (rule filter_update_count)
  have inv: "length (filter in_with (threads s)) = (if model_lock (shared s) then 1 else 0)"
    using assms by (simp add: lock_invariant_def)
  from thread_step_lock [OF st] count inv
  have "length (filter in_with ((threads s)[i := t'])) = (if model_lock w' then 1 else 0)"
    by (auto split: if_splits)
  with after show ?thesis by (simp add: lock_invariant_def)
qed

lemma run_lock_invariant: "lock_invariant s \<Longrightarrow> lock_invariant (run sched s)"
  by (induction sched arbitrary: s) (simp_all add: step_lock_invariant)

lemma callers_lock_invariant: "\<not> model_lock w \<Longrightarrow> lock_invariant (callers w ps)"
proof -
  have "filter in_with (map Calling ps) = []"
    by (induction ps) simp_all
  then show "\<not> model_lock w \<Longrightarrow> lock_invariant (callers w ps)"
    by (simp add: lock_invariant_def callers_def)
qed

lemma in_inference_in_with: "in_inference t \<Longrightarrow> in_with t"
  by (cases t) simp_all

lemma inference_count:
  "lock_invariant s \<Longrightarrow> length (filter in_inference (threads s)) \<le> 1"
proof -
  assume inv: "lock_invariant s"
  have "filter in_inference (threads s) = filter in_inference (filter in_with (threads s))"
    by (simp add: in_inference_in_with cong: conj_cong) (metis in_inference_in_with)
  then have "length (filter in_inference (threads s)) \<le> length (filter in_with (threads s))"
    by (metis length_filter_le)
  with inv show ?thesis by (simp add: lock_invariant_def split: if_splits)
qed

lemma lone_thread:
  "(let s = run [0, 0, 0, 0] (callers w [p])
    in (outcome_of (threads s ! 0), shared s)) = transcribe_audio p w"
  by (auto simp: callers_def step_def transcribe_audio_def Let_def acquire_def release_def emit_def
           split: option.splits prod.splits outcome.splits)

text \<open>
  C1. Whenever \<^verbatim>\<open>transcribe_audio\<close> runs on a loaded model with the lock free and the
  inference ends (by returning or by raising any exception), the effects are, in this
  order, the lock acquired, \<^verbatim>\<open>model.generate\<close> called, the lock released, and the lock
  is free afterwards. When the inference never ends, the lock was acquired before it was
  called and stays held. With the lock held by someone else the call waits and the model
  is not invoked. For any number of threads calling \<^verbatim>\<open>transcribe_audio\<close> and any
  interleaving of their steps, at most one thread is inside \<^verbatim>\<open>model.generate\<close>. A thread
  running alone through its steps does what the function \<^verbatim>\<open>transcribe_audio\<close> does.
\<close>

theorem transcribe_audio_mutual_exclusion:
  "(model w = Some m \<and> \<not> model_lock w \<and> fst (m p (fs w)) \<noteq> Block \<longrightarrow>
      trace (snd (transcribe_audio p w)) = trace w @ [Acquire, Generate p, Release] \<and>
      \<not> model_lock (snd (transcribe_audio p w))) \<and>
   (model w = Some m \<and> \<not> model_lock w \<and> fst (m p (fs w)) = Block \<longrightarrow>
      fst (transcribe_audio p w) = Block \<and>
      trace (snd (transcribe_audio p w)) = trace w @ [Acquire, Generate p] \<and>
      model_lock (snd (transcribe_audio p w))) \<and>
   (model w = Some m \<and> model_lock w \<longrightarrow> transcribe_audio p w = (Block, w)) \<and>
   (\<not> model_lock w \<longrightarrow>
      length (filter in_inference (threads (run sched (callers w ps)))) \<le> 1) \<and>
   (let s = run [0, 0, 0, 0] (callers w [p])
    in (outcome_of (threads s ! 0), shared s)) = transcribe_audio p w"
proof (intro conjI impI)
  assume "model w = Some m \<and> \<not> model_lock w \<and> fst (m p (fs w)) \<noteq> Block"
  then show "trace (snd (transcribe_audio p w)) = trace w @ [Acquire, Generate p, Release]"
    and "\<not> model_lock (snd (transcribe_audio p w))"
    by (simp_all add: transcribe_audio_trace)
next
  assume "model w = Some m \<and> \<not> model_lock w \<and> fst (m p (fs w)) = Block"
  then show "fst (transcribe_audio p w) = Block"
    and "trace (snd (transcribe_audio p w)) = trace w @ [Acquire, Generate p]"
    and "model_lock (snd (transcribe_audio p w))"
    by (simp_all add: transcribe_audio_hang)
next
  assume "model w = Some m \<and> model_lock w"
  then show "transcribe_audio p w = (Block, w)"
    by (simp add: transcribe_audio_blocked)
next
  assume "\<not> model_lock w"
  then have "lock_invariant (run sched (callers w ps))"
    by (simp add: callers_lock_invariant run_lock_invariant)
  then show "length (filter in_inference (threads (run sched (callers w ps)))) \<le> 1"
    by (rule inference_count)
next
  show "(let s = run [0, 0, 0, 0] (callers w [p])
         in (outcome_of (threads s ! 0), shared s)) = transcribe_audio p w"
    by (rule lone_thread)
qed

theorem transcribe_audio_mutual_exclusion_witness:
  "model ready_world = Some stub_model \<and> \<not> model_lock ready_world \<and>
   fst (stub_model (PStr ''/tmp/a.wav'') (fs ready_world)) \<noteq> Block \<and>
   trace (snd (transcribe_audio (PStr ''/tmp/a.wav'') ready_world)) =
     [Acquire, Generate (PStr ''/tmp/a.wav''), Release] \<and>
   \<not> model_lock (snd (transcribe_audio (PStr ''/tmp/a.wav'') ready_world)) \<and>
   length (filter in_inference
     (threads (run [0, 1, 0, 1]
        (callers ready_world [PStr ''/tmp/a.wav'', PStr ''/tmp/b.wav''])))) \<le> 1 \<and>
   in_inference
     (threads (run [0, 1, 0, 1]
        (callers ready_world [PStr ''/tmp/a.wav'', PStr ''/tmp/b.wav''])) ! 0) \<and>
   threads (run [0, 1, 0, 1]
        (callers ready_world [PStr ''/tmp/a.wav'', PStr ''/tmp/b.wav''])) ! 1 =
     Calling (PStr ''/tmp/b.wav'')"
  using transcribe_audio_mutual_exclusion
    [of ready_world stub_model "PStr ''/tmp/a.wav''" "[0, 1, 0, 1]"
        "[PStr ''/tmp/a.wav'', PStr ''/tmp/b.wav'']"]
  by (simp add: ready_world_def load_parakeet_model_def stub_env_def initial_world_def
        stub_model_def callers_def step_def acquire_def emit_def)

section \<open>The Model Manager: results\<close>

text \<open>
  C4. A call of \<^verbatim>\<open>transcribe_audio\<close> while the global \<^verbatim>\<open>model\<close> is \<^verbatim>\<open>None\<close> returns the dict
  with error "Model not loaded" and empty text and leaves the whole state as it was: the
  lock is not touched, whether free or held, and nothing is invoked.
\<close>

theorem transcribe_audio_not_loaded:
  "model w = None \<Longrightarrow>
   transcribe_audio p w =
     (Return (PDict [(''error'', PStr ''Model not loaded''), (''text'', PStr '''')]), w)"
  by (simp add: transcribe_audio_def not_loaded_result_def)

theorem transcribe_audio_not_loaded_witness:
  "model ((initial_world Map.empty)\<lparr>model_lock := True\<rparr>) = None \<and>
   transcribe_audio (PStr ''/tmp/a.wav'') ((initial_world Map.empty)\<lparr>model_lock := True\<rparr>) =
     (Return (PDict [(''error'', PStr ''Model not loaded''), (''text'', PStr '''')]),
      (initial_world Map.empty)\<lparr>model_lock := True\<rparr>)"
  using transcribe_audio_not_loaded
    [of "(initial_world Map.empty)\<lparr>model_lock := True\<rparr>" "PStr ''/tmp/a.wav''"]
  by (simp add: initial_world_def)

section \<open>Field lemmas for the handlers\<close>

lemma responses_emit:
  "responses (emit ev w) =
   responses w @ (case response_of ev of None \<Rightarrow> [] | Some rsp \<Rightarrow> [rsp])"
  by (cases ev) (simp_all add: responses_def emit_def List.map_filter_def)

lemma responses_fs_update [simp]: "responses (w\<lparr>fs := f\<rparr>) = responses w"
  by (simp add: responses_def)

lemma responses_acquire_release [simp]:
  "responses (acquire w) = responses w"
  "responses (release w) = responses w"
  by (simp_all add: responses_def acquire_def release_def emit_def List.map_filter_def)

lemma send_json_response_fields [simp]:
  "trace (send_json_response d st w) = trace w @ [Respond (json_response d st)]"
  "fs (send_json_response d st w) = fs w"
  "model (send_json_response d st w) = model w"
  "model_lock (send_json_response d st w) = model_lock w"
  "model_loaded (send_json_response d st w) = model_loaded w"
  "responses (send_json_response d st w) = responses w @ [json_response d st]"
  by (simp_all add: send_json_response_def responses_emit)

lemma cleanup_fields [simp]:
  "trace (cleanup en p w) = trace w @ [Unlink p]"
  "model (cleanup en p w) = model w"
  "model_lock (cleanup en p w) = model_lock w"
  "model_loaded (cleanup en p w) = model_loaded w"
  "responses (cleanup en p w) = responses w"
  by (auto simp: cleanup_def os_unlink_def responses_emit split: option.splits)


lemma transcribe_audio_globals:
  "model (snd (transcribe_audio p w)) = model w"
  "model_loaded (snd (transcribe_audio p w)) = model_loaded w"
  "responses (snd (transcribe_audio p w)) = responses w"
  by (auto simp: transcribe_audio_def Let_def responses_emit
           split: option.splits prod.splits outcome.splits)

lemma transcribe_route_globals:
  "model (snd (transcribe_route en b w)) = model w"
  "model_loaded (snd (transcribe_route en b w)) = model_loaded w"
proof -
  have "model (snd (transcribe_route en b w)) = model w \<and>
        model_loaded (snd (transcribe_route en b w)) = model_loaded w"
  proof (cases "NamedTemporaryFile en ''.wav'' (fs w)")
    case (Inl failure)
    then show ?thesis
      by (cases failure) (simp add: transcribe_route_def split: option.splits)
  next
    case (Inr tp)
    let ?w0 = "emit (CreateTemp tp) (w\<lparr>fs := (fs w)(tp \<mapsto> b)\<rparr>)"
    obtain out w1 where call: "transcribe_audio (PStr tp) ?w0 = (out, w1)"
      by (cases "transcribe_audio (PStr tp) ?w0")
    from transcribe_audio_globals(1,2) [of "PStr tp" ?w0] call
    have "model w1 = model w" and "model_loaded w1 = model_loaded w" by simp_all
    with Inr call show ?thesis
      by (cases out) (simp_all add: transcribe_route_def)
  qed
  then show "model (snd (transcribe_route en b w)) = model w"
    and "model_loaded (snd (transcribe_route en b w)) = model_loaded w" by simp_all
qed

lemma transcribe_file_route_globals:
  "model (snd (transcribe_file_route en b w)) = model w"
  "model_loaded (snd (transcribe_file_route en b w)) = model_loaded w"
proof -
  have call: "model (snd (case transcribe_audio v w of
                 (Return result, w') \<Rightarrow> (Return (), send_json_response result 200 w')
               | (Raise e, w') \<Rightarrow> (Raise e, w')
               | (Block, w') \<Rightarrow> (Block, w'))) = model w \<and>
              model_loaded (snd (case transcribe_audio v w of
                 (Return result, w') \<Rightarrow> (Return (), send_json_response result 200 w')
               | (Raise e, w') \<Rightarrow> (Raise e, w')
               | (Block, w') \<Rightarrow> (Block, w'))) = model_loaded w" for v
  proof -
    obtain out w1 where c: "transcribe_audio v w = (out, w1)"
      by (cases "transcribe_audio v w")
    from transcribe_audio_globals(1,2) [of v w] c
    have "model w1 = model w" and "model_loaded w1 = model_loaded w" by simp_all
    with c show ?thesis by (cases out) simp_all
  qed
  have "model (snd (transcribe_file_route en b w)) = model w \<and>
        model_loaded (snd (transcribe_file_route en b w)) = model_loaded w"
    unfolding transcribe_file_route_def
    using call by (simp split: sum.splits bool.splits)
  then show "model (snd (transcribe_file_route en b w)) = model w"
    and "model_loaded (snd (transcribe_file_route en b w)) = model_loaded w" by simp_all
qed

lemma handle_one_request_globals:
  "model (snd (handle_one_request en r w)) = model w"
  "model_loaded (snd (handle_one_request en r w)) = model_loaded w"
  by (simp_all add: handle_one_request_def do_GET_def do_POST_def do_OPTIONS_def
        transcribe_route_globals transcribe_file_route_globals
        split: sum.splits outcome.splits)

lemma serve_forever_globals:
  "model (snd (serve_forever en rs w)) = model w \<and>
   model_loaded (snd (serve_forever en rs w)) = model_loaded w"
proof (induction rs arbitrary: w)
  case Nil
  show ?case by simp
next
  case (Cons r rs)
  obtain out w1 where h: "handle_one_request en r w = (out, w1)"
    by (cases "handle_one_request en r w")
  from handle_one_request_globals [of en r w] h
  have "model w1 = model w" and "model_loaded w1 = model_loaded w" by simp_all
  with h Cons.IH [of w1] show ?case by (cases out) simp_all
qed

lemma thread_step_globals:
  "model (snd (thread_step t w)) = model w"
  "model_loaded (snd (thread_step t w)) = model_loaded w"
  by (cases t; simp split: option.splits prod.splits outcome.splits)+

lemma load_parakeet_model_loaded:
  "model_loaded (snd (load_parakeet_model en w)) \<longleftrightarrow>
   model_loaded w \<or> (\<exists>m. load_model en ''mlx-community/parakeet-tdt-0.6b-v2'' = Inr m)"
  by (auto simp: load_parakeet_model_def split: sum.splits)

lemma main_loaded:
  "model_loaded (snd (main en rs w)) \<longleftrightarrow>
   model_loaded w \<or> (\<exists>m. load_model en ''mlx-community/parakeet-tdt-0.6b-v2'' = Inr m)"
  by (auto simp: main_def load_parakeet_model_def run_server_def serve_forever_globals
           split: sum.splits option.splits)

section \<open>The readiness flag\<close>

text \<open>
  C5. The flag \<^verbatim>\<open>model_loaded\<close> is false in the initial state. No operation of the
  program (loading, a call of \<^verbatim>\<open>transcribe_audio\<close>, the handling of a request, the
  serving loop, the whole script, a step of a concurrent caller) turns a true flag
  false, and the only operations that turn a false flag true are those that load the
  model, when \<^verbatim>\<open>load_model\<close> returns one.
\<close>

theorem model_loaded_monotone:
  "\<not> model_loaded (initial_world fls) \<and>
   (model_loaded w \<longrightarrow> model_loaded (perform en op w)) \<and>
   (\<not> model_loaded w \<and> model_loaded (perform en op w) \<longrightarrow>
      (op = Load \<or> (\<exists>rs. op = Main rs)) \<and>
      (\<exists>m. load_model en ''mlx-community/parakeet-tdt-0.6b-v2'' = Inr m))"
proof (intro conjI impI)
  show "\<not> model_loaded (initial_world fls)"
    by (simp add: initial_world_def)
next
  assume "model_loaded w"
  then show "model_loaded (perform en op w)"
    by (cases op)
       (simp_all add: load_parakeet_model_loaded transcribe_audio_globals
          handle_one_request_globals serve_forever_globals main_loaded thread_step_globals)
next
  assume a: "\<not> model_loaded w \<and> model_loaded (perform en op w)"
  then show "op = Load \<or> (\<exists>rs. op = Main rs)"
    by (cases op)
       (simp_all add: transcribe_audio_globals handle_one_request_globals
          serve_forever_globals thread_step_globals)
  from a show "\<exists>m. load_model en ''mlx-community/parakeet-tdt-0.6b-v2'' = Inr m"
    by (cases op)
       (auto simp: load_parakeet_model_loaded transcribe_audio_globals
          handle_one_request_globals serve_forever_globals main_loaded thread_step_globals)
qed

theorem model_loaded_monotone_witness:
  "\<not> model_loaded (initial_world Map.empty) \<and>
   model_loaded (perform stub_env Load (initial_world Map.empty)) \<and>
   model_loaded ready_world \<and>
   model_loaded
     (perform stub_env (Serve [post ''/transcribe'' ''4'' ''RIFF'', get ''/health'']) ready_world)"
  using model_loaded_monotone
    [of Map.empty ready_world stub_env
        "Serve [post ''/transcribe'' ''4'' ''RIFF'', get ''/health'']"]
  by (simp add: ready_world_def load_parakeet_model_def stub_env_def initial_world_def)

section \<open>The routes\<close>

text \<open>
  C8. A GET request whose parsed path is \<^verbatim>\<open>/health\<close> is answered with status 200 and the
  dict of \<^verbatim>\<open>status\<close> "ok" and \<^verbatim>\<open>model_loaded\<close>; one whose parsed path is \<^verbatim>\<open>/status\<close> with
  status 200 and the dict of \<^verbatim>\<open>model_loaded\<close> and \<^verbatim>\<open>model_name\<close>. In both,
  \<^verbatim>\<open>model_loaded\<close> is the readiness flag of the state in which the request is handled.
\<close>

theorem health_and_status:
  "command r = ''GET'' \<Longrightarrow> urlparse_path en (path r) = Inr p \<Longrightarrow>
   (p = ''/health'' \<longrightarrow>
      handle_one_request en r w =
        (Return (),
         emit (Respond
           \<lparr>status = 200,
            hdrs = [(''Content-Type'', ''application/json''),
                    (''Access-Control-Allow-Origin'', ''*'')],
            body = Some (PDict [(''status'', PStr ''ok''),
                                (''model_loaded'', PBool (model_loaded w))])\<rparr>) w)) \<and>
   (p = ''/status'' \<longrightarrow>
      handle_one_request en r w =
        (Return (),
         emit (Respond
           \<lparr>status = 200,
            hdrs = [(''Content-Type'', ''application/json''),
                    (''Access-Control-Allow-Origin'', ''*'')],
            body = Some (PDict [(''model_loaded'', PBool (model_loaded w)),
                                (''model_name'', PStr ''parakeet-tdt-0.6b-v2'')])\<rparr>) w))"
  by (simp add: handle_one_request_def do_GET_def send_json_response_def json_response_def)

theorem health_and_status_witness:
  "command (get ''/health?verbose=1'') = ''GET'' \<and>
   urlparse_path stub_env (path (get ''/health?verbose=1'')) = Inr ''/health'' \<and>
   responses (snd (handle_one_request stub_env (get ''/health?verbose=1'') ready_world)) =
     [\<lparr>status = 200,
       hdrs = [(''Content-Type'', ''application/json''),
               (''Access-Control-Allow-Origin'', ''*'')],
       body = Some (PDict [(''status'', PStr ''ok''), (''model_loaded'', PBool True)])\<rparr>] \<and>
   responses (snd (handle_one_request stub_env (get ''/health?verbose=1'')
                     (initial_world Map.empty))) =
     [\<lparr>status = 200,
       hdrs = [(''Content-Type'', ''application/json''),
               (''Access-Control-Allow-Origin'', ''*'')],
       body = Some (PDict [(''status'', PStr ''ok''), (''model_loaded'', PBool False)])\<rparr>]"
  using health_and_status
    [of "get ''/health?verbose=1''" stub_env "''/health''" ready_world]
    health_and_status
    [of "get ''/health?verbose=1''" stub_env "''/health''" "initial_world Map.empty"]
  by (simp add: get_def stub_env_def ready_world_def load_parakeet_model_def initial_world_def
        responses_emit responses_def List.map_filter_def)

text \<open>
  C9, as the code has it. A GET request whose parsed path is neither \<^verbatim>\<open>/health\<close> nor
  \<^verbatim>\<open>/status\<close>, and a POST request whose parsed path is neither \<^verbatim>\<open>/transcribe\<close> nor
  \<^verbatim>\<open>/transcribe-file\<close>, are answered with status 404 and the dict of \<^verbatim>\<open>error\<close>
  "Not found". A request with a method other than GET, POST and OPTIONS reaches no
  method of the handler: the base class answers it with its 501 error page.
\<close>

theorem unknown_route:
  "urlparse_path en (path r) = Inr p \<Longrightarrow>
   (command r = ''GET'' \<and> p \<noteq> ''/health'' \<and> p \<noteq> ''/status'' \<or>
    command r = ''POST'' \<and> p \<noteq> ''/transcribe'' \<and> p \<noteq> ''/transcribe-file'' \<longrightarrow>
      handle_one_request en r w =
        (Return (),
         emit (Respond
           \<lparr>status = 404,
            hdrs = [(''Content-Type'', ''application/json''),
                    (''Access-Control-Allow-Origin'', ''*'')],
            body = Some (PDict [(''error'', PStr ''Not found'')])\<rparr>) w)) \<and>
   (command r \<noteq> ''GET'' \<and> command r \<noteq> ''POST'' \<and> command r \<noteq> ''OPTIONS'' \<longrightarrow>
      handle_one_request en r w = (Return (), emit (Send_error 501) w))"
  by (auto simp: handle_one_request_def do_GET_def do_POST_def send_json_response_def
        json_response_def not_found_def)

theorem unknown_route_witness:
  "urlparse_path stub_env (path (post ''/health'' ''2'' ''{}'')) = Inr ''/health'' \<and>
   command (post ''/health'' ''2'' ''{}'') = ''POST'' \<and>
   responses (snd (handle_one_request stub_env (post ''/health'' ''2'' ''{}'') ready_world)) =
     [\<lparr>status = 404,
       hdrs = [(''Content-Type'', ''application/json''),
               (''Access-Control-Allow-Origin'', ''*'')],
       body = Some (PDict [(''error'', PStr ''Not found'')])\<rparr>]"
  using unknown_route [of stub_env "post ''/health'' ''2'' ''{}''" "''/health''" ready_world]
  by (simp add: post_def stub_env_def ready_world_def load_parakeet_model_def initial_world_def
        responses_emit responses_def List.map_filter_def)

text \<open>
  C9, as the claim states it, fails: a PUT request to an undefined path gets no 404 and
  no JSON body; the only effect is the 501 error page of the base class.
\<close>

theorem unknown_route_any_method_counterexample:
  "command (put ''/nowhere'') \<noteq> ''OPTIONS'' \<and>
   trace (snd (handle_one_request stub_env (put ''/nowhere'') ready_world)) = [Send_error 501] \<and>
   responses (snd (handle_one_request stub_env (put ''/nowhere'') ready_world)) = []"
  by (simp add: put_def handle_one_request_def ready_world_def load_parakeet_model_def
        stub_env_def initial_world_def responses_emit responses_def List.map_filter_def)

text \<open>
  C10. A POST request whose parsed path is \<^verbatim>\<open>/transcribe-file\<close> and whose body, once read,
  is rejected by \<^verbatim>\<open>json.loads\<close> ends with the exception of the decoding, uncaught by the
  handler, and with the state as it was: no response is written, the 400 of the path
  check included.
\<close>

theorem transcribe_file_invalid_json:
  "command r = ''POST'' \<Longrightarrow> urlparse_path en (path r) = Inr ''/transcribe-file'' \<Longrightarrow>
   read_body en r = Return b \<Longrightarrow> json_loads en b = Inl e \<Longrightarrow>
   handle_one_request en r w = (Raise e, w)"
  by (simp add: handle_one_request_def do_POST_def transcribe_file_route_def)

theorem transcribe_file_invalid_json_witness:
  "command (post ''/transcribe-file'' ''10'' ''{not json}'') = ''POST'' \<and>
   urlparse_path stub_env (path (post ''/transcribe-file'' ''10'' ''{not json}'')) =
     Inr ''/transcribe-file'' \<and>
   read_body stub_env (post ''/transcribe-file'' ''10'' ''{not json}'') = Return ''{not json}'' \<and>
   json_loads stub_env ''{not json}'' = Inl (Exc ValueError ''Expecting value'') \<and>
   handle_one_request stub_env (post ''/transcribe-file'' ''10'' ''{not json}'') ready_world =
     (Raise (Exc ValueError ''Expecting value''), ready_world)"
  using transcribe_file_invalid_json
    [of "post ''/transcribe-file'' ''10'' ''{not json}''" stub_env "''{not json}''"
        "Exc ValueError ''Expecting value''" ready_world]
  by (simp add: post_def stub_env_def read_body_def content_length_def rfile_read_def)

section \<open>The POST routes\<close>

lemma transcribe_audio_answers:
  "answers p w \<longleftrightarrow> (\<exists>d. fst (transcribe_audio p w) = Return d)"
  by (auto simp: answers_def transcribe_audio_def Let_def
           split: option.splits prod.splits outcome.splits)

lemma transcribe_audio_Exception:
  assumes "model w = Some m" and "\<not> model_lock w" and "m p (fs w) = (Raise e, fs')"
    and "isinstance_Exception e"
  shows "fst (transcribe_audio p w) = Return (error_result e)"
  using assms by (simp add: transcribe_audio_def Let_def)

lemma transcribe_audio_temp_events:
  "temp_events (snd (transcribe_audio p w)) = temp_events w"
  by (auto simp: temp_events_def transcribe_audio_def Let_def
           split: option.splits prod.splits outcome.splits)

lemma temp_events_send [simp]:
  "temp_events (send_json_response d st w) = temp_events w"
  by (simp add: temp_events_def)


lemma post_transcribe:
  assumes "command r = ''POST''" and "urlparse_path en (path r) = Inr ''/transcribe''"
    and "read_body en r = Return b" and "NamedTemporaryFile en ''.wav'' (fs w) = Inr tp"
    and "transcribe_audio (PStr tp) (emit (CreateTemp tp) (w\<lparr>fs := (fs w)(tp \<mapsto> b)\<rparr>)) = (out, w1)"
  shows "handle_one_request en r w =
           (case out of
              Return d \<Rightarrow> (Return (), cleanup en tp (send_json_response d 200 w1))
            | Raise e \<Rightarrow> (Raise e, cleanup en tp w1)
            | Block \<Rightarrow> (Block, w1))"
  using assms
  by (simp add: handle_one_request_def do_POST_def transcribe_route_def split: outcome.splits)

lemma post_transcribe_file:
  assumes "command r = ''POST''" and "urlparse_path en (path r) = Inr ''/transcribe-file''"
    and "read_body en r = Return b" and "json_loads en b = Inr (PDict kvs)"
    and "map_of kvs ''path'' = Some v" and "transcribe_audio v w = (out, w1)"
  shows "handle_one_request en r w =
           (case out of
              Return d \<Rightarrow> (Return (), send_json_response d 200 w1)
            | Raise e \<Rightarrow> (Raise e, w1)
            | Block \<Rightarrow> (Block, w1))"
proof -
  from assms(5) have "''path'' \<in> fst ` set kvs"
    by (metis domI dom_map_of_conv_image_fst)
  with assms show ?thesis
    by (simp add: handle_one_request_def do_POST_def transcribe_file_route_def
          split: outcome.splits)
qed

lemma post_transcribe_file_no_path:
  assumes "command r = ''POST''" and "urlparse_path en (path r) = Inr ''/transcribe-file''"
    and "read_body en r = Return b" and "json_loads en b = Inr (PDict kvs)"
    and "map_of kvs ''path'' = None"
  shows "handle_one_request en r w = (Return (), send_json_response no_path 400 w)"
proof -
  from assms(5) have "''path'' \<notin> fst ` set kvs"
    by (simp add: map_of_eq_None_iff)
  with assms show ?thesis
    by (simp add: handle_one_request_def do_POST_def transcribe_file_route_def)
qed

text \<open>
  C2, as the code has it. When the inference raises an exception that derives from
  \<^verbatim>\<open>Exception\<close>, \<^verbatim>\<open>transcribe_audio\<close> returns the dict of \<^verbatim>\<open>error\<close> \<^verbatim>\<open>str(e)\<close> and empty
  \<^verbatim>\<open>text\<close>, and both POST routes write that dict with status 200 and return: on
  \<^verbatim>\<open>/transcribe-file\<close> for the value under \<^verbatim>\<open>path\<close>, on \<^verbatim>\<open>/transcribe\<close> for the path of
  the temporary file.
\<close>

theorem inference_Exception_caught:
  "model w = Some m \<Longrightarrow> \<not> model_lock w \<Longrightarrow> isinstance_Exception e \<Longrightarrow>
   (m p (fs w) = (Raise e, fs') \<longrightarrow>
      fst (transcribe_audio p w) =
        Return (PDict [(''error'', PStr (str_of e)), (''text'', PStr '''')])) \<and>
   (m p (fs w) = (Raise e, fs') \<and> command r = ''POST'' \<and>
    urlparse_path en (path r) = Inr ''/transcribe-file'' \<and> read_body en r = Return b \<and>
    json_loads en b = Inr (PDict kvs) \<and> map_of kvs ''path'' = Some p \<longrightarrow>
      fst (handle_one_request en r w) = Return () \<and>
      responses (snd (handle_one_request en r w)) =
        responses w @
        [json_response (PDict [(''error'', PStr (str_of e)), (''text'', PStr '''')]) 200]) \<and>
   (command r = ''POST'' \<and> urlparse_path en (path r) = Inr ''/transcribe'' \<and>
    read_body en r = Return b \<and> NamedTemporaryFile en ''.wav'' (fs w) = Inr tp \<and>
    m (PStr tp) ((fs w)(tp \<mapsto> b)) = (Raise e, fs') \<longrightarrow>
      fst (handle_one_request en r w) = Return () \<and>
      responses (snd (handle_one_request en r w)) =
        responses w @
        [json_response (PDict [(''error'', PStr (str_of e)), (''text'', PStr '''')]) 200])"
proof (intro conjI impI)
  assume w: "model w = Some m" "\<not> model_lock w" and e: "isinstance_Exception e"
  {
    assume "m p (fs w) = (Raise e, fs')"
    from transcribe_audio_Exception [OF w this e]
    show "fst (transcribe_audio p w) =
            Return (PDict [(''error'', PStr (str_of e)), (''text'', PStr '''')])"
      by (simp add: error_result_def)
  }
  {
    assume a: "m p (fs w) = (Raise e, fs') \<and> command r = ''POST'' \<and>
      urlparse_path en (path r) = Inr ''/transcribe-file'' \<and> read_body en r = Return b \<and>
      json_loads en b = Inr (PDict kvs) \<and> map_of kvs ''path'' = Some p"
    obtain out w1 where call: "transcribe_audio p w = (out, w1)"
      by (cases "transcribe_audio p w")
    from a have "m p (fs w) = (Raise e, fs')" by simp
    from transcribe_audio_Exception [OF w this e] call
    have out: "out = Return (error_result e)" by simp
    from transcribe_audio_globals(3) [of p w] call
    have rsp: "responses w1 = responses w" by simp
    from a have "command r = ''POST''" and "urlparse_path en (path r) = Inr ''/transcribe-file''"
      and "read_body en r = Return b" and "json_loads en b = Inr (PDict kvs)"
      and "map_of kvs ''path'' = Some p" by simp_all
    from post_transcribe_file [OF this call] out rsp
    show "fst (handle_one_request en r w) = Return ()"
      and "responses (snd (handle_one_request en r w)) =
        responses w @
        [json_response (PDict [(''error'', PStr (str_of e)), (''text'', PStr '''')]) 200]"
      by (simp_all add: error_result_def)
  }
  {
    assume a: "command r = ''POST'' \<and> urlparse_path en (path r) = Inr ''/transcribe'' \<and>
      read_body en r = Return b \<and> NamedTemporaryFile en ''.wav'' (fs w) = Inr tp \<and>
      m (PStr tp) ((fs w)(tp \<mapsto> b)) = (Raise e, fs')"
    let ?w0 = "emit (CreateTemp tp) (w\<lparr>fs := (fs w)(tp \<mapsto> b)\<rparr>)"
    obtain out w1 where call: "transcribe_audio (PStr tp) ?w0 = (out, w1)"
      by (cases "transcribe_audio (PStr tp) ?w0")
    from w a have "model ?w0 = Some m" and "\<not> model_lock ?w0"
      and "m (PStr tp) (fs ?w0) = (Raise e, fs')" by simp_all
    from transcribe_audio_Exception [OF this e] call
    have out: "out = Return (error_result e)" by (metis fst_conv)
    from transcribe_audio_globals(3) [of "PStr tp" ?w0] call
    have rsp: "responses w1 = responses w" by (simp add: responses_emit)
    from a have "command r = ''POST''" and "urlparse_path en (path r) = Inr ''/transcribe''"
      and "read_body en r = Return b" and "NamedTemporaryFile en ''.wav'' (fs w) = Inr tp"
      by simp_all
    from post_transcribe [OF this call] out rsp
    show "fst (handle_one_request en r w) = Return ()"
      and "responses (snd (handle_one_request en r w)) =
        responses w @
        [json_response (PDict [(''error'', PStr (str_of e)), (''text'', PStr '''')]) 200]"
      by (simp_all add: error_result_def)
  }
qed

theorem inference_Exception_caught_witness:
  \<open>model ready_world = Some stub_model \<and> \<not> model_lock ready_world \<and>
   isinstance_Exception (Exc FileNotFoundError ''No such file'') \<and>
   stub_model (PStr ''/nonexistent/file.wav'') (fs ready_world) =
     (Raise (Exc FileNotFoundError ''No such file''), Map.empty) \<and>
   read_body stub_env (post ''/transcribe-file'' ''33'' ''{"path": "/nonexistent/file.wav"}'') =
     Return ''{"path": "/nonexistent/file.wav"}'' \<and>
   fst (transcribe_audio (PStr ''/nonexistent/file.wav'') ready_world) =
     Return (PDict [(''error'', PStr ''No such file''), (''text'', PStr '''')]) \<and>
   responses (snd (handle_one_request stub_env
       (post ''/transcribe-file'' ''33'' ''{"path": "/nonexistent/file.wav"}'') ready_world)) =
     [json_response (PDict [(''error'', PStr ''No such file''), (''text'', PStr '''')]) 200] \<and>
   NamedTemporaryFile stub_env ''.wav'' (fs (world_with failing_model)) =
     Inr ''/tmp/tmpa1b2c3d4.wav'' \<and>
   responses (snd (handle_one_request stub_env (post ''/transcribe'' ''4'' ''RIFF'')
       (world_with failing_model))) =
     [json_response (PDict [(''error'', PStr ''decode failed''), (''text'', PStr '''')]) 200]\<close>
  using inference_Exception_caught
    [of ready_world stub_model "Exc FileNotFoundError ''No such file''"
        "PStr ''/nonexistent/file.wav''" Map.empty
        \<open>post ''/transcribe-file'' ''33'' ''{"path": "/nonexistent/file.wav"}''\<close> stub_env
        \<open>''{"path": "/nonexistent/file.wav"}''\<close>
        "[(''path'', PStr ''/nonexistent/file.wav'')]" "''/tmp/unused.wav''"]
    inference_Exception_caught
    [of "world_with failing_model" failing_model
        "Exc (Exception_subclass ''RuntimeError'') ''decode failed''"
        "PStr ''/tmp/unused.wav''" "[''/tmp/tmpa1b2c3d4.wav'' \<mapsto> ''RIFF'']"
        "post ''/transcribe'' ''4'' ''RIFF''" stub_env "''RIFF''" "[]" "''/tmp/tmpa1b2c3d4.wav''"]
  by (simp add: ready_world_def load_parakeet_model_def stub_env_def initial_world_def
        world_with_def stub_model_def failing_model_def isinstance_Exception_def post_def
        read_body_def content_length_def rfile_read_def NamedTemporaryFile_def
        responses_def List.map_filter_def)

text \<open>
  C2, as the claim states it, fails: an inference that raises \<^verbatim>\<open>KeyboardInterrupt\<close>, which
  does not derive from \<^verbatim>\<open>Exception\<close>, is not caught; the exception leaves
  \<^verbatim>\<open>transcribe_audio\<close> and the handler, and no response is written.
\<close>

theorem inference_BaseException_counterexample:
  \<open>fst (transcribe_audio (PStr ''/nonexistent/file.wav'') (world_with interrupted_model)) =
     Raise (Exc KeyboardInterrupt '''') \<and>
   fst (handle_one_request stub_env
       (post ''/transcribe-file'' ''33'' ''{"path": "/nonexistent/file.wav"}'')
       (world_with interrupted_model)) = Raise (Exc KeyboardInterrupt '''') \<and>
   responses (snd (handle_one_request stub_env
       (post ''/transcribe-file'' ''33'' ''{"path": "/nonexistent/file.wav"}'')
       (world_with interrupted_model))) = []\<close>
  by (simp add: transcribe_audio_def handle_one_request_def do_POST_def
        transcribe_file_route_def read_body_def content_length_def rfile_read_def
        world_with_def initial_world_def interrupted_model_def stub_env_def post_def
        isinstance_Exception_def Let_def acquire_def release_def emit_def
        responses_def List.map_filter_def)



text \<open>
  When the write of the body fails, the handler ends with that exception before the
  \<^verbatim>\<open>try\<close> statement is entered: no call, no response, no \<^verbatim>\<open>os.unlink\<close>, and the file
  that was created stays.
\<close>

lemma post_transcribe_write_failure:
  assumes "command r = ''POST''" and "urlparse_path en (path r) = Inr ''/transcribe''"
    and "read_body en r = Return b"
    and "NamedTemporaryFile en ''.wav'' (fs w) = Inl (e, Some left)"
  shows "handle_one_request en r w =
           (Raise e, emit (CreateTemp left) (w\<lparr>fs := (fs w)(left \<mapsto> [])\<rparr>))"
  using assms by (simp add: handle_one_request_def do_POST_def transcribe_route_def)

lemma post_transcribe_write_failure_example:
  "handle_one_request full_disk_env (post ''/transcribe'' ''4'' ''RIFF'') ready_world =
     (Raise (Exc OSError ''No space left on device''),
      ready_world\<lparr>fs := [''/tmp/tmpa1b2c3d4.wav'' \<mapsto> []],
                   trace := [CreateTemp ''/tmp/tmpa1b2c3d4.wav'']\<rparr>)"
  by (simp add: full_disk_env_def ready_world_def load_parakeet_model_def stub_env_def
        initial_world_def post_def read_body_def content_length_def rfile_read_def
        NamedTemporaryFile_def handle_one_request_def do_POST_def transcribe_route_def emit_def)



text \<open>
  Where the membership test \<^verbatim>\<open>'path' not in data\<close> can be made and says that \<^verbatim>\<open>path\<close> is
  missing (an object without the key, a list without the element, a str without the
  substring), the handler answers with status 400 and the dict of \<^verbatim>\<open>error\<close>
  "No path provided".
\<close>

lemma post_transcribe_file_not_in:
  assumes "command r = ''POST''" and "urlparse_path en (path r) = Inr ''/transcribe-file''"
    and "read_body en r = Return b" and "json_loads en b = Inr data"
    and "py_in ''path'' data = Inr False"
  shows "handle_one_request en r w = (Return (), send_json_response no_path 400 w)"
  using assms
  by (simp add: handle_one_request_def do_POST_def transcribe_file_route_def)

text \<open>
  On a JSON object the route does what its branches say: without the key \<^verbatim>\<open>path\<close> the
  answer is the 400; with the key, \<^verbatim>\<open>transcribe_audio\<close> is called on the value under it
  in the state of the request, no temporary file is created or removed, and the
  handler ends as that call does; whenever the call comes back with a result dict, the
  handler writes that dict with status 200 and returns.
\<close>

lemma transcribe_file_object:
  "command r = ''POST'' \<Longrightarrow> urlparse_path en (path r) = Inr ''/transcribe-file'' \<Longrightarrow>
   read_body en r = Return b \<Longrightarrow> json_loads en b = Inr (PDict kvs) \<Longrightarrow>
   (map_of kvs ''path'' = None \<longrightarrow>
      handle_one_request en r w =
        (Return (),
         emit (Respond
           \<lparr>status = 400,
            hdrs = [(''Content-Type'', ''application/json''),
                    (''Access-Control-Allow-Origin'', ''*'')],
            body = Some (PDict [(''error'', PStr ''No path provided'')])\<rparr>) w)) \<and>
   (map_of kvs ''path'' = Some v \<longrightarrow>
      handle_one_request en r w =
        (case transcribe_audio v w of
           (Return d, w') \<Rightarrow> (Return (), send_json_response d 200 w')
         | (Raise e, w') \<Rightarrow> (Raise e, w')
         | (Block, w') \<Rightarrow> (Block, w')) \<and>
      temp_events (snd (handle_one_request en r w)) = temp_events w \<and>
      (answers v w \<longrightarrow>
         fst (handle_one_request en r w) = Return () \<and>
         (\<exists>d. fst (transcribe_audio v w) = Return d \<and>
              responses (snd (handle_one_request en r w)) =
                responses w @ [json_response d 200])))"
proof (intro conjI impI)
  assume r: "command r = ''POST''" "urlparse_path en (path r) = Inr ''/transcribe-file''"
    "read_body en r = Return b" "json_loads en b = Inr (PDict kvs)"
  {
    assume "map_of kvs ''path'' = None"
    from post_transcribe_file_no_path [OF r this]
    show "handle_one_request en r w =
        (Return (),
         emit (Respond
           \<lparr>status = 400,
            hdrs = [(''Content-Type'', ''application/json''),
                    (''Access-Control-Allow-Origin'', ''*'')],
            body = Some (PDict [(''error'', PStr ''No path provided'')])\<rparr>) w)"
      by (simp add: send_json_response_def json_response_def no_path_def)
  }
  assume v: "map_of kvs ''path'' = Some v"
  obtain out w1 where call: "transcribe_audio v w = (out, w1)"
    by (cases "transcribe_audio v w")
  note h = post_transcribe_file [OF r v call]
  from h call show eq: "handle_one_request en r w =
        (case transcribe_audio v w of
           (Return d, w') \<Rightarrow> (Return (), send_json_response d 200 w')
         | (Raise e, w') \<Rightarrow> (Raise e, w')
         | (Block, w') \<Rightarrow> (Block, w'))"
    by simp
  from transcribe_audio_temp_events [of v w] call
  have "temp_events w1 = temp_events w" by simp
  with h show "temp_events (snd (handle_one_request en r w)) = temp_events w"
    by (cases out) simp_all
  from transcribe_audio_globals(3) [of v w] call
  have rsp: "responses w1 = responses w" by simp
  assume "answers v w"
  then obtain d where d: "out = Return d"
    using call by (auto simp: transcribe_audio_answers)
  with h show "fst (handle_one_request en r w) = Return ()" by simp
  from h d rsp call
  show "\<exists>d. fst (transcribe_audio v w) = Return d \<and>
          responses (snd (handle_one_request en r w)) = responses w @ [json_response d 200]"
    by simp
qed

lemma transcribe_file_object_example:
  \<open>responses (snd (handle_one_request stub_env (post ''/transcribe-file'' ''2'' ''{}'')
     ready_world)) =
     [\<lparr>status = 400,
       hdrs = [(''Content-Type'', ''application/json''),
               (''Access-Control-Allow-Origin'', ''*'')],
       body = Some (PDict [(''error'', PStr ''No path provided'')])\<rparr>] \<and>
   trace (snd (handle_one_request stub_env
     (post ''/transcribe-file'' ''33'' ''{"path": "/nonexistent/file.wav"}'') ready_world)) =
     [Acquire, Generate (PStr ''/nonexistent/file.wav''), Release,
      Respond (json_response
        (PDict [(''error'', PStr ''No such file''), (''text'', PStr '''')]) 200)]\<close>
  by (simp add: ready_world_def load_parakeet_model_def stub_env_def initial_world_def
        stub_model_def post_def read_body_def content_length_def rfile_read_def
        handle_one_request_def do_POST_def transcribe_file_route_def no_path_def
        transcribe_audio_def Let_def send_json_response_def error_result_def
        json_response_def isinstance_Exception_def acquire_def release_def emit_def
        responses_def List.map_filter_def)

text \<open>
  C7. A POST request to \<^verbatim>\<open>/transcribe-file\<close> whose JSON body has no key \<^verbatim>\<open>path\<close> is to be
  answered with status 400 and the dict of \<^verbatim>\<open>error\<close> "No path provided". The handler
  makes the test \<^verbatim>\<open>'path' not in data\<close> on whatever \<^verbatim>\<open>json.loads\<close> has returned, without
  looking whether it is a dict: on the body \<^verbatim>\<open>123\<close>, valid JSON with no key \<^verbatim>\<open>path\<close>, the
  test raises TypeError, nothing catches it, and the handler ends with that exception,
  the state as it was and no response written.
\<close>

theorem transcribe_file_non_object_crash:
  "read_body stub_env (post ''/transcribe-file'' ''3'' ''123'') = Return ''123'' \<and>
   json_loads stub_env ''123'' = Inr (PInt 123) \<and>
   handle_one_request stub_env (post ''/transcribe-file'' ''3'' ''123'') ready_world =
     (Raise (Exc TypeError ''argument is not iterable''), ready_world) \<and>
   responses ready_world = []"
  by (simp add: handle_one_request_def do_POST_def transcribe_file_route_def read_body_def
        content_length_def rfile_read_def stub_env_def post_def ready_world_def
        load_parakeet_model_def initial_world_def responses_def List.map_filter_def)

section \<open>The serving loop\<close>

lemma serve_forever_append:
  "serve_forever en (rs @ rs') w =
     (case serve_forever en rs w of
        (Return u, w') \<Rightarrow> serve_forever en rs' w'
      | (Raise e, w') \<Rightarrow> (Raise e, w')
      | (Block, w') \<Rightarrow> (Block, w'))"
proof (induction rs arbitrary: w)
  case Nil
  show ?case by simp
next
  case (Cons r rs)
  obtain out w1 where h: "handle_one_request en r w = (out, w1)"
    by (cases "handle_one_request en r w")
  with Cons.IH [of w1] show ?case
    by (cases out) simp_all
qed

text \<open>
  C3, as the code has it. The connections are handled one after another by the thread
  that runs \<^verbatim>\<open>serve_forever\<close>: the connections that come after a first batch are
  handled from the state the batch has left, and only if the loop has got through the
  batch; a connection whose handling never returns keeps the loop, and every
  connection behind it, waiting.
\<close>

theorem serve_forever_sequential:
  "serve_forever en (rs @ rs') w =
     (case serve_forever en rs w of
        (Return u, w') \<Rightarrow> serve_forever en rs' w'
      | (Raise e, w') \<Rightarrow> (Raise e, w')
      | (Block, w') \<Rightarrow> (Block, w')) \<and>
   (fst (handle_one_request en r w) = Block \<longrightarrow>
      serve_forever en (r # rs') w = handle_one_request en r w)"
proof
  show "serve_forever en (rs @ rs') w =
     (case serve_forever en rs w of
        (Return u, w') \<Rightarrow> serve_forever en rs' w'
      | (Raise e, w') \<Rightarrow> (Raise e, w')
      | (Block, w') \<Rightarrow> (Block, w'))"
    by (rule serve_forever_append)
next
  show "fst (handle_one_request en r w) = Block \<longrightarrow>
      serve_forever en (r # rs') w = handle_one_request en r w"
    by (cases "handle_one_request en r w") simp
qed

theorem serve_forever_sequential_witness:
  "fst (handle_one_request stub_env (post ''/transcribe'' ''10'' ''RIF'') ready_world) = Block \<and>
   serve_forever stub_env [post ''/transcribe'' ''10'' ''RIF'', get ''/status''] ready_world =
     (Block, ready_world) \<and>
   responses (snd (serve_forever stub_env
       ([post ''/transcribe'' ''4'' ''RIFF''] @ [get ''/health'']) ready_world)) =
     [json_response (PDict [(''text'', PStr ''hello world''), (''error'', PNone)]) 200,
      json_response (PDict [(''status'', PStr ''ok''), (''model_loaded'', PBool True)]) 200]"
  using
    serve_forever_sequential
      [of stub_env "[post ''/transcribe'' ''4'' ''RIFF'']" "[get ''/health'']" ready_world
          "post ''/transcribe'' ''10'' ''RIF''"]
    serve_forever_sequential
      [of stub_env "[]" "[get ''/status'']" ready_world "post ''/transcribe'' ''10'' ''RIF''"]
  by (simp add: ready_world_def load_parakeet_model_def stub_env_def initial_world_def
        stub_model_def post_def get_def read_body_def content_length_def rfile_read_def
        NamedTemporaryFile_def handle_one_request_def do_POST_def do_GET_def
        transcribe_route_def transcribe_audio_def Let_def cleanup_def os_unlink_def
        send_json_response_def text_result_def acquire_def release_def emit_def
        responses_def List.map_filter_def)

text \<open>
  C3, as the claim states it, fails: a client that announces ten bytes of audio and
  sends three keeps the handler in \<^verbatim>\<open>rfile.read\<close>, and the unrelated health check that
  arrives behind it gets no response, although on its own it is answered at once.
\<close>

theorem serve_forever_blocked_counterexample:
  "fst (serve_forever stub_env [post ''/transcribe'' ''10'' ''RIF'', get ''/health''] ready_world) =
     Block \<and>
   responses (snd (serve_forever stub_env
       [post ''/transcribe'' ''10'' ''RIF'', get ''/health''] ready_world)) = [] \<and>
   responses (snd (serve_forever stub_env [get ''/health''] ready_world)) =
     [json_response (PDict [(''status'', PStr ''ok''), (''model_loaded'', PBool True)]) 200]"
  by (simp add: ready_world_def load_parakeet_model_def stub_env_def initial_world_def
        post_def get_def read_body_def content_length_def rfile_read_def
        handle_one_request_def do_POST_def do_GET_def send_json_response_def emit_def
        responses_def List.map_filter_def)

end
